theory Spec2Isabelle
  imports Main "HOL-Library.Sublist"
begin

section \<open>Python strings\<close>

text \<open>
  A Python \<open>str\<close> is a sequence of Unicode code points, so a string is a list of
  natural numbers here (a \<open>char\<close> of HOL is a byte, and the bullet glyph U+2022 is one
  code point but three bytes). \<open>str\<close> reads an ASCII literal.
\<close>

type_synonym uchar = nat
type_synonym ustr = "uchar list"

definition str :: "string \<Rightarrow> ustr" where
  "str s = map of_char s"

definition nl :: uchar where
  "nl = 10"

definition bullet :: uchar where
  "bullet = 8226"

text \<open>
  \<open>c.isspace()\<close>: the code points CPython lists in \<open>_PyUnicode_IsWhitespace\<close>.
\<close>

definition py_isspace :: "uchar \<Rightarrow> bool" where
  "py_isspace c =
     ((9 \<le> c \<and> c \<le> 13) \<or> (28 \<le> c \<and> c \<le> 32) \<or> c = 133 \<or> c = 160 \<or> c = 5760 \<or>
      (8192 \<le> c \<and> c \<le> 8202) \<or> c = 8232 \<or> c = 8233 \<or> c = 8239 \<or> c = 8287 \<or>
      c = 12288)"

text \<open>\<open>s.strip()\<close> with no argument.\<close>

definition py_strip :: "ustr \<Rightarrow> ustr" where
  "py_strip s = rev (dropWhile py_isspace (rev (dropWhile py_isspace s)))"

text \<open>\<open>s.lstrip(chars)\<close>: drops the leading run of code points that occur in \<open>chars\<close>.\<close>

definition py_lstrip :: "ustr \<Rightarrow> ustr \<Rightarrow> ustr" where
  "py_lstrip chars s = dropWhile (\<lambda>c. c \<in> set chars) s"

text \<open>\<open>s.startswith(p)\<close>.\<close>

definition startswith :: "ustr \<Rightarrow> ustr \<Rightarrow> bool" where
  "startswith s p = prefix p s"

text \<open>\<open>p in s\<close> for strings: \<open>p\<close> occurs in \<open>s\<close> as a contiguous run.\<close>

fun py_in :: "ustr \<Rightarrow> ustr \<Rightarrow> bool" where
  "py_in p [] = (p = [])"
| "py_in p (c # cs) = (prefix p (c # cs) \<or> py_in p cs)"

text \<open>\<open>s.split(d)\<close> for a one-character separator; the empty string gives \<open>['']\<close>.\<close>

fun py_split :: "uchar \<Rightarrow> ustr \<Rightarrow> ustr list" where
  "py_split d [] = [[]]"
| "py_split d (c # cs) =
     (if c = d then [] # py_split d cs
      else (case py_split d cs of
              [] \<Rightarrow> [[c]]
            | l # ls \<Rightarrow> (c # l) # ls))"

text \<open>
  \<open>s.replace(old, new)\<close>: the occurrences of \<open>old\<close> are found from the left and
  do not overlap. With an empty \<open>old\<close>, Python puts \<open>new\<close> before every character
  and at the end.
\<close>

function py_replace :: "ustr \<Rightarrow> ustr \<Rightarrow> ustr \<Rightarrow> ustr" where
  "py_replace old new s =
     (if old = [] then new @ concat (map (\<lambda>c. c # new) s)
      else if s = [] then []
      else if prefix old s then new @ py_replace old new (drop (length old) s)
      else hd s # py_replace old new (tl s))"
  by pat_completeness auto
termination
  by (relation "measure (\<lambda>(old, new, s). length s)") auto

text \<open>
  \<open>s.upper()\<close> maps each code point on its own through Unicode's full upper-case
  mapping (one code point may become several). On ASCII the mapping is written out; the
  table for the code points from 128 on belongs to the Unicode database and is the
  parameter \<open>U\<close>.
\<close>

definition py_upper_char :: "(uchar \<Rightarrow> ustr) \<Rightarrow> uchar \<Rightarrow> ustr" where
  "py_upper_char U c =
     (if c < 128 then (if 97 \<le> c \<and> c \<le> 122 then [c - 32] else [c]) else U c)"

definition py_upper :: "(uchar \<Rightarrow> ustr) \<Rightarrow> ustr \<Rightarrow> ustr" where
  "py_upper U s = concat (map (py_upper_char U) s)"

text \<open>
  The table on code points that have no case, such as the bullet U+2022: each is its own
  upper case. The concrete scenarios below use no other code point from 128 on.
\<close>

definition uncased :: "uchar \<Rightarrow> ustr" where
  "uncased c = [c]"

section \<open>Report Normalizer: \<open>parse_gemini_to_html\<close> of Dashboard.py\<close>

text \<open>
  \<open>current_section\<close> is \<open>None\<close> or one of the strings \<open>'findings'\<close>,
  \<open>'unverified'\<close>, \<open>'summary'\<close>.
\<close>

datatype sect = Sec_findings | Sec_unverified | Sec_summary

record scan_state =
  confidence :: ustr
  key_findings :: "ustr list"
  unverified :: "ustr list"
  summary :: ustr
  current_section :: "sect option"

definition scan_init :: scan_state where
  "scan_init =
     \<lparr>confidence = str ''N/A'', key_findings = [], unverified = [], summary = [],
      current_section = None\<rparr>"

text \<open>The bullet branch's \<open>line.lstrip('\<bullet>-* ').strip()\<close>.\<close>

definition bullet_chars :: ustr where
  "bullet_chars = bullet # str ''-* ''"

definition bullet_text :: "ustr \<Rightarrow> ustr" where
  "bullet_text line = py_strip (py_lstrip bullet_chars line)"

definition is_bullet_line :: "ustr \<Rightarrow> bool" where
  "is_bullet_line line =
     (startswith line [bullet] \<or> startswith line (str ''-'') \<or> startswith line (str ''*''))"

text \<open>
  The value the \<open>CONFIDENCE:\<close> branch stores:
  \<open>line.replace('CONFIDENCE:', '').strip().replace('%', '')\<close>.
\<close>

definition confidence_of :: "ustr \<Rightarrow> ustr" where
  "confidence_of line =
     py_replace (str ''%'') [] (py_strip (py_replace (str ''CONFIDENCE:'') [] line))"

text \<open>The body of the loop over the lines, on one line.\<close>

definition scan_line :: "(uchar \<Rightarrow> ustr) \<Rightarrow> scan_state \<Rightarrow> ustr \<Rightarrow> scan_state" where
  "scan_line U st raw_line =
     (let line = py_strip raw_line in
      if line = [] then st
      else if startswith line (str ''CONFIDENCE:'') then
        st\<lparr>confidence := confidence_of line\<rparr>
      else if py_in (str ''KEY FINDINGS'') (py_upper U line) then
        st\<lparr>current_section := Some Sec_findings\<rparr>
      else if py_in (str ''UNVERIFIED'') (py_upper U line) then
        st\<lparr>current_section := Some Sec_unverified\<rparr>
      else if py_in (str ''SUMMARY'') (py_upper U line) then
        st\<lparr>current_section := Some Sec_summary\<rparr>
      else if is_bullet_line line then
        (if current_section st = Some Sec_findings then
           st\<lparr>key_findings := key_findings st @ [bullet_text line]\<rparr>
         else if current_section st = Some Sec_unverified then
           st\<lparr>unverified := unverified st @ [bullet_text line]\<rparr>
         else st)
      else if current_section st = Some Sec_summary then
        st\<lparr>summary := summary st @ line @ str '' ''\<rparr>
      else st)"

text \<open>The scanning pass: the loop over \<open>gemini_response.split('\n')\<close>.\<close>

definition scan :: "(uchar \<Rightarrow> ustr) \<Rightarrow> ustr \<Rightarrow> scan_state" where
  "scan U gemini_response = foldl (scan_line U) scan_init (py_split nl gemini_response)"

text \<open>
  The markup that \<open>parse_gemini_to_html\<close> builds is fixed text around three places that
  depend on the scan: the list items of the findings, the list items of the unverified
  claims and the text of the summary block. The model keeps these three.
\<close>

record report_html =
  findings_items :: "ustr list"
  unverified_items :: "ustr list"
  summary_block :: ustr

definition no_findings_item :: ustr where
  "no_findings_item = str ''No confirmed facts extracted from sources.''"

definition no_unverified_item :: ustr where
  "no_unverified_item = str ''No unverified claims detected.''"

definition summary_placeholder :: ustr where
  "summary_placeholder = str ''Analysis complete. See findings above for details.''"

definition build_html :: "scan_state \<Rightarrow> report_html" where
  "build_html st =
     \<lparr>findings_items =
        take 5 (key_findings st) @ (if key_findings st = [] then [no_findings_item] else []),
      unverified_items =
        take 5 (unverified st) @ (if unverified st = [] then [no_unverified_item] else []),
      summary_block =
        (if py_strip (summary st) \<noteq> [] then py_strip (summary st) else summary_placeholder)\<rparr>"

text \<open>The function returns the pair \<open>(html, confidence)\<close>; \<open>topic\<close> is not used.\<close>

definition parse_gemini_to_html :: "(uchar \<Rightarrow> ustr) \<Rightarrow> ustr \<Rightarrow> ustr \<Rightarrow> report_html \<times> ustr" where
  "parse_gemini_to_html U gemini_response topic =
     (let st = scan U gemini_response in (build_html st, confidence st))"

section \<open>Exceptions and the environment\<close>

text \<open>
  The exceptions that the modelled operations raise, each with the text that
  \<open>str(e)\<close> gives (CPython's texts, shortened and without their quotation marks).
  All of them are subclasses of \<open>Exception\<close>, so a handler
  \<open>except Exception\<close> catches every one; \<open>KeyboardInterrupt\<close> and the other
  exceptions outside \<open>Exception\<close> are not modelled. A function that may raise
  returns \<open>exn + 'a\<close>, with \<open>Inl\<close> for the exception that leaves it.
\<close>

datatype exn =
    JSONDecodeError ustr
  | AttributeError ustr
  | IndexError ustr
  | KeyError ustr
  | TypeError ustr
  | UnboundLocalError ustr
  | OSError ustr
  | OtherException ustr

fun exn_text :: "exn \<Rightarrow> ustr" where
  "exn_text (JSONDecodeError m) = m"
| "exn_text (AttributeError m) = m"
| "exn_text (IndexError m) = m"
| "exn_text (KeyError m) = m"
| "exn_text (TypeError m) = m"
| "exn_text (UnboundLocalError m) = m"
| "exn_text (OSError m) = m"
| "exn_text (OtherException m) = m"

text \<open>\<open>os.getenv(name)\<close> reads the environment, a map from names to values.\<close>

type_synonym env = "ustr \<rightharpoonup> ustr"

text \<open>Truth value of an optional string: \<open>None\<close> and the empty string are false.\<close>

definition truthy :: "ustr option \<Rightarrow> bool" where
  "truthy v = (v \<noteq> None \<and> v \<noteq> Some [])"

text \<open>\<open>a or b\<close>.\<close>

definition py_or :: "ustr option \<Rightarrow> ustr option \<Rightarrow> ustr option" where
  "py_or a b = (if truthy a then a else b)"

section \<open>Social-Signal Fetcher: \<open>get_x_intel\<close> of Dashboard.py\<close>

text \<open>
  \<open>s.split(sep)\<close> for a separator of any length (Python refuses the empty
  separator; none is used here).
\<close>

function py_split_str :: "ustr \<Rightarrow> ustr \<Rightarrow> ustr list" where
  "py_split_str sep s =
     (if s = [] then [[]]
      else if sep \<noteq> [] \<and> prefix sep s then [] # py_split_str sep (drop (length sep) s)
      else (case py_split_str sep (tl s) of
              [] \<Rightarrow> [[hd s]]
            | l # ls \<Rightarrow> (hd s # l) # ls))"
  by pat_completeness auto
termination
  by (relation "measure (\<lambda>(sep, s). length s)") auto

text \<open>
  The client is an object holding the API key (the base URL is fixed); it is modelled by
  the key. \<open>get_xai_client\<close> returns \<open>None\<close> when the key is unset or empty.
\<close>

definition get_xai_client :: "env \<Rightarrow> ustr option" where
  "get_xai_client e =
     (let xai_key = e (str ''XAI_API_KEY'') in if \<not> truthy xai_key then None else xai_key)"

text \<open>
  Removing a wrapping code fence:
  \<^verbatim>\<open>
  if content.startswith("```"):
      content = content.split("```")[1]
      if content.startswith("json"):
          content = content[4:]
  \<close>
  Indexing the split at 1 raises \<open>IndexError\<close> when it has a single element.
\<close>

definition fence :: ustr where
  "fence = [96, 96, 96]"

definition strip_fence :: "ustr \<Rightarrow> exn + ustr" where
  "strip_fence content =
     (if startswith content fence then
        (case py_split_str fence content of
           _ # c # _ \<Rightarrow> Inr (if startswith c (str ''json'') then drop 4 c else c)
         | _ \<Rightarrow> Inl (IndexError (str ''list index out of range'')))
      else Inr content)"

text \<open>
  The body of the \<open>try\<close> block. The provider call \<open>chat\<close> (the chat-completion
  request with the fixed prompts, for a client and a topic) raises or returns the
  \<open>content\<close> of the first choice's message, which may be \<open>None\<close>; \<open>loads\<close> is
  \<open>json.loads\<close>. An exception leaves the block together with the value the local
  variable \<open>content\<close> has at that moment (\<open>None\<close> while it is not yet assigned),
  which the handlers below read.
\<close>

definition x_intel_try ::
  "(ustr \<Rightarrow> ustr \<Rightarrow> exn + ustr option) \<Rightarrow> (ustr \<Rightarrow> exn + 'j) \<Rightarrow> ustr \<Rightarrow> ustr \<Rightarrow>
   (exn \<times> ustr option) + 'j" where
  "x_intel_try chat loads client topic =
     (case chat client topic of
        Inl e \<Rightarrow> Inl (e, None)
      | Inr None \<Rightarrow>
          Inl (AttributeError (str ''NoneType object has no attribute strip''), None)
      | Inr (Some text) \<Rightarrow>
          (let content = py_strip text in
           case strip_fence content of
             Inl e \<Rightarrow> Inl (e, Some content)
           | Inr c \<Rightarrow>
               (let content = py_strip c in
                case loads content of
                  Inl e \<Rightarrow> Inl (e, Some content)
                | Inr v \<Rightarrow> Inr v)))"

text \<open>
  The result is the parsed JSON value or a dictionary with the key \<open>error\<close> and,
  in one case, the key \<open>raw\<close>.
\<close>

datatype 'j x_intel = Parsed 'j | ErrorDict ustr "ustr option"

text \<open>
  The two handlers, in the order of the source: \<open>except json.JSONDecodeError\<close> reads
  \<open>content\<close>, which raises \<open>UnboundLocalError\<close> when the variable is not
  assigned; \<open>except Exception\<close> takes every other exception.
\<close>

definition get_x_intel ::
  "env \<Rightarrow> (ustr \<Rightarrow> ustr \<Rightarrow> exn + ustr option) \<Rightarrow> (ustr \<Rightarrow> exn + 'j) \<Rightarrow> ustr \<Rightarrow>
   exn + 'j x_intel" where
  "get_x_intel e chat loads topic =
     (case get_xai_client e of
        None \<Rightarrow> Inr (ErrorDict (str ''XAI_API_KEY not configured'') None)
      | Some client \<Rightarrow>
          (case x_intel_try chat loads client topic of
             Inr v \<Rightarrow> Inr (Parsed v)
           | Inl (JSONDecodeError m, Some content) \<Rightarrow>
               Inr (ErrorDict (str ''Failed to parse Grok response: '' @ m) (Some content))
           | Inl (JSONDecodeError m, None) \<Rightarrow>
               Inl (UnboundLocalError
                 (str ''cannot access local variable content where it is not associated with a value''))
           | Inl (ex, _) \<Rightarrow>
               Inr (ErrorDict (str ''Error calling Grok API: '' @ exn_text ex) None)))"

text \<open>
  The text that reaches \<open>json.loads\<close> and the \<open>raw\<close> field, when the provider
  returned \<open>text\<close>.
\<close>

definition cleaned :: "ustr \<Rightarrow> ustr" where
  "cleaned text =
     (case strip_fence (py_strip text) of Inl _ \<Rightarrow> py_strip text | Inr c \<Rightarrow> py_strip c)"

text \<open>
  \<open>json.loads\<close> belongs to the standard library. What the decoder does at the first
  character is written out: a JSON text starts with white space or with the first
  character of a value, and any other start (and the empty text) raises
  \<open>JSONDecodeError\<close>. The rest of the decoder is the parameter \<open>decode\<close>.
\<close>

definition json_ws :: "uchar \<Rightarrow> bool" where
  "json_ws c = (c = 32 \<or> c = 9 \<or> c = 10 \<or> c = 13)"

definition json_value_start :: ustr where
  "json_value_start = 34 # str ''{[-0123456789tfnNI''"

definition json_loads :: "(ustr \<Rightarrow> exn + 'j) \<Rightarrow> ustr \<Rightarrow> exn + 'j" where
  "json_loads decode s =
     (case s of
        [] \<Rightarrow> Inl (JSONDecodeError (str ''Expecting value: line 1 column 1 (char 0)''))
      | c # _ \<Rightarrow>
          if json_ws c \<or> c \<in> set json_value_start then decode s
          else Inl (JSONDecodeError (str ''Expecting value: line 1 column 1 (char 0)'')))"

section \<open>Evidence Fetcher: \<open>get_live_news\<close> of Dashboard.py\<close>

text \<open>
  The keyword arguments of \<open>client.search\<close>; \<open>time_range\<close> is \<open>None\<close> when the
  call does not give it.
\<close>

record search_request =
  query :: ustr
  search_depth :: ustr
  include_domains :: "ustr list"
  max_results :: nat
  time_range :: "ustr option"

text \<open>
  A search result is a dictionary with string keys, and the response a dictionary whose
  key \<open>results\<close> holds the list of results; the response is modelled by that list, or
  \<open>None\<close> when the key is absent. A value \<open>None\<close> of a field is Python's
  \<open>None\<close>, which \<open>dict.get\<close> also gives for an absent key.
\<close>

type_synonym 'v pydict = "ustr \<rightharpoonup> 'v"

record 'v news_item =
  url :: "'v option"
  content :: "'v option"
  title :: "'v option"

definition news_of :: "'v pydict \<Rightarrow> 'v news_item" where
  "news_of result =
     \<lparr>url = result (str ''url''), content = result (str ''content''),
      title = result (str ''title'')\<rparr>"

text \<open>\<open>response.get("results", [])\<close>.\<close>

definition results_of :: "'v pydict list option \<Rightarrow> 'v pydict list" where
  "results_of response = (case response of None \<Rightarrow> [] | Some rs \<Rightarrow> rs)"

definition recent_request :: "ustr \<Rightarrow> search_request" where
  "recent_request topic =
     \<lparr>query = topic, search_depth = str ''advanced'', include_domains = [], max_results = 10,
      time_range = Some (str ''year'')\<rparr>"

definition unscoped_request :: "ustr \<Rightarrow> search_request" where
  "unscoped_request topic =
     \<lparr>query = topic, search_depth = str ''advanced'', include_domains = [], max_results = 10,
      time_range = None\<rparr>"

text \<open>
  What one call does: the value it returns (\<open>None\<close> without a credential), the search
  requests it issued, in order, and the messages it showed with \<open>st.error\<close>.
\<close>

record 'v news_run =
  returned :: "'v news_item list option"
  requests :: "search_request list"
  shown_errors :: "ustr list"

text \<open>
  \<open>search\<close> is the provider: for an API key and a request it raises or returns a
  response.
\<close>

definition get_live_news ::
  "env \<Rightarrow> (ustr \<Rightarrow> search_request \<Rightarrow> exn + 'v pydict list option) \<Rightarrow> ustr \<Rightarrow> 'v news_run" where
  "get_live_news e search topic =
     (let tavily_key = py_or (e (str ''Tavily API Key'')) (e (str ''TAVILY_API_KEY'')) in
      case tavily_key of
        None \<Rightarrow> \<lparr>returned = None, requests = [], shown_errors = []\<rparr>
      | Some k \<Rightarrow>
          if k = [] then \<lparr>returned = None, requests = [], shown_errors = []\<rparr>
          else
            (case search k (recent_request topic) of
               Inl ex \<Rightarrow>
                 \<lparr>returned = Some [], requests = [recent_request topic],
                  shown_errors = [str ''Error fetching news: '' @ exn_text ex]\<rparr>
             | Inr response \<Rightarrow>
                 (let news_data = map news_of (results_of response) in
                  if length news_data < 3 then
                    (case search k (unscoped_request topic) of
                       Inl ex \<Rightarrow>
                         \<lparr>returned = Some [],
                          requests = [recent_request topic, unscoped_request topic],
                          shown_errors = [str ''Error fetching news: '' @ exn_text ex]\<rparr>
                     | Inr response2 \<Rightarrow>
                         \<lparr>returned = Some (map news_of (results_of response2)),
                          requests = [recent_request topic, unscoped_request topic],
                          shown_errors = []\<rparr>)
                  else
                    \<lparr>returned = Some news_data, requests = [recent_request topic],
                     shown_errors = []\<rparr>)))"

section \<open>History Store: utils.py\<close>

text \<open>
  The values that \<open>json\<close> reads and writes. A dictionary keeps its items in insertion
  order. Floating-point numbers are left out: none occurs in the fields the properties
  below are about.
\<close>

datatype json =
    JNull
  | JBool bool
  | JInt int
  | JStr ustr
  | JList "json list"
  | JDict "(ustr \<times> json) list"

text \<open>
  The file \<open>history.json\<close>: it does not exist (and can be created or not), or it
  exists, can be opened for reading or not, for writing or not, and has a content.
\<close>

datatype 'c store = Missing bool | File bool bool 'c

fun path_exists :: "'c store \<Rightarrow> bool" where
  "path_exists (Missing _) = False"
| "path_exists (File _ _ _) = True"

text \<open>\<open>open(HISTORY_FILE, 'r')\<close> and reading the content.\<close>

fun read_file :: "'c store \<Rightarrow> exn + 'c" where
  "read_file (Missing _) = Inl (OSError (str ''No such file or directory''))"
| "read_file (File r w c) = (if r then Inr c else Inl (OSError (str ''Permission denied'')))"

text \<open>
  \<open>open(HISTORY_FILE, 'w')\<close> and writing \<open>d\<close>: a new file is one its creator can
  read and write.
\<close>

fun write_file :: "'c store \<Rightarrow> 'c \<Rightarrow> exn + 'c store" where
  "write_file (Missing creatable) d =
     (if creatable then Inr (File True True d) else Inl (OSError (str ''Permission denied'')))"
| "write_file (File r w c) d =
     (if w then Inr (File r w d) else Inl (OSError (str ''Permission denied'')))"

text \<open>
  \<open>load_history\<close>; \<open>load\<close> is \<open>json.load\<close> on the content of the file. The
  handler \<open>except Exception\<close> turns every exception of the \<open>try\<close> block into the
  empty list.
\<close>

definition load_history :: "('c \<Rightarrow> exn + json) \<Rightarrow> 'c store \<Rightarrow> exn + json" where
  "load_history load s =
     (if \<not> path_exists s then Inr (JList [])
      else
        (case (case read_file s of Inl ex \<Rightarrow> Inl ex | Inr c \<Rightarrow> load c) of
           Inl ex \<Rightarrow> Inr (JList [])
         | Inr v \<Rightarrow> Inr v))"

text \<open>\<open>history.insert(0, new_entry)\<close>: only a list has the method.\<close>

fun insert0 :: "json \<Rightarrow> json \<Rightarrow> exn + json" where
  "insert0 (JList xs) x = Inr (JList (x # xs))"
| "insert0 _ x = Inl (AttributeError (str ''object has no attribute insert''))"

definition new_entry :: "ustr \<Rightarrow> json \<Rightarrow> json \<Rightarrow> json \<Rightarrow> json \<Rightarrow> json" where
  "new_entry timestamp topic confidence_score report_html x_intel_data =
     JDict [(str ''timestamp'', JStr timestamp), (str ''topic'', topic),
            (str ''confidence_score'', confidence_score), (str ''report_html'', report_html),
            (str ''x_intel_data'', x_intel_data)]"

text \<open>
  \<open>save_search\<close>; \<open>dump\<close> is \<open>json.dump\<close> with \<open>indent=2\<close>, giving the content
  written, and \<open>timestamp\<close> is the formatted \<open>datetime.now()\<close>. The arguments are
  Python values that \<open>json\<close> can write. An exception of \<open>insert\<close> or of the
  write leaves the function.
\<close>

definition save_search ::
  "(json \<Rightarrow> 'c) \<Rightarrow> ('c \<Rightarrow> exn + json) \<Rightarrow> ustr \<Rightarrow> json \<Rightarrow> json \<Rightarrow> json \<Rightarrow> json \<Rightarrow> 'c store \<Rightarrow>
   exn + 'c store" where
  "save_search dump load timestamp topic confidence_score report_html x_intel_data s =
     (case load_history load s of
        Inl ex \<Rightarrow> Inl ex
      | Inr history \<Rightarrow>
          (case insert0 history
                  (new_entry timestamp topic confidence_score report_html x_intel_data) of
             Inl ex \<Rightarrow> Inl ex
           | Inr history' \<Rightarrow> write_file s (dump history')))"

text \<open>\<open>v[0]\<close> and \<open>v[key]\<close> for a string key, on a JSON value.\<close>

fun getitem0 :: "json \<Rightarrow> exn + json" where
  "getitem0 (JList []) = Inl (IndexError (str ''list index out of range''))"
| "getitem0 (JList (x # _)) = Inr x"
| "getitem0 (JStr []) = Inl (IndexError (str ''string index out of range''))"
| "getitem0 (JStr (c # _)) = Inr (JStr [c])"
| "getitem0 (JDict _) = Inl (KeyError (str ''0''))"
| "getitem0 _ = Inl (TypeError (str ''object is not subscriptable''))"

fun getkey :: "json \<Rightarrow> ustr \<Rightarrow> exn + json" where
  "getkey (JDict kvs) k = (case map_of kvs k of None \<Rightarrow> Inl (KeyError k) | Some v \<Rightarrow> Inr v)"
| "getkey (JList _) k = Inl (TypeError (str ''list indices must be integers or slices, not str''))"
| "getkey (JStr _) k = Inl (TypeError (str ''string indices must be integers, not str''))"
| "getkey _ k = Inl (TypeError (str ''object is not subscriptable''))"

text \<open>
  A store that a reader and a writer can both use: the file can be created, or it exists
  and can be read and written.
\<close>

fun usable :: "'c store \<Rightarrow> bool" where
  "usable (Missing creatable) = creatable"
| "usable (File r w c) = (r \<and> w)"

text \<open>\<open>load_history()[0]\<close>.\<close>

definition load_first :: "('c \<Rightarrow> exn + json) \<Rightarrow> 'c store \<Rightarrow> exn + json" where
  "load_first load s = (case load_history load s of Inl ex \<Rightarrow> Inl ex | Inr h \<Rightarrow> getitem0 h)"


subsection \<open>The specification's reading of a confidence value\<close>

text \<open>
  The specification's VerificationReport allows as confidence the sentinel \<open>N/A\<close> or
  an integer from 0 to 100, here a non-empty run of decimal digits whose value is at
  most 100.
\<close>

definition is_digit :: "uchar \<Rightarrow> bool" where
  "is_digit c = (48 \<le> c \<and> c \<le> 57)"

definition digits_value :: "ustr \<Rightarrow> nat" where
  "digits_value s = foldl (\<lambda>a c. 10 * a + (c - 48)) 0 s"

definition spec_confidence_ok :: "ustr \<Rightarrow> bool" where
  "spec_confidence_ok s =
     (s = str ''N/A'' \<or> (s \<noteq> [] \<and> list_all is_digit s \<and> digits_value s \<le> 100))"

subsection \<open>Raw texts of the scenarios\<close>

definition scenario_A :: ustr where
  "scenario_A =
     str ''CONFIDENCE: 85%'' @ [nl, nl] @ str ''KEY FINDINGS:'' @ [nl] @
     bullet # str '' Fact one'' @ [nl] @ bullet # str '' Fact two'' @ [nl, nl] @
     str ''UNVERIFIED:'' @ [nl] @ bullet # str '' Rumor one'' @ [nl, nl] @
     str ''SUMMARY:'' @ [nl] @ str ''All good.''"

text \<open>A findings section with two bullets, the first of which has the word Summary.\<close>

definition summary_bullet_text :: ustr where
  "summary_bullet_text =
     str ''KEY FINDINGS:'' @ [nl] @ bullet # str '' Summary of events'' @ [nl] @
     bullet # str '' Second fact''"

text \<open>A bullet whose run of bullet characters ends at a tab (code point 9).\<close>

definition tab_bullet_text :: ustr where
  "tab_bullet_text = str ''KEY FINDINGS:'' @ [nl] @ str ''-'' @ [9] @ str ''-5 degrees''"

definition degrees_text :: ustr where
  "degrees_text = str ''KEY FINDINGS:'' @ [nl] @ bullet # str '' -5 degrees expected''"

text \<open>
  \<open>b\<close> is the stripped text of a bullet line among the lines \<open>ls\<close>.
\<close>

definition from_bullet :: "ustr list \<Rightarrow> ustr \<Rightarrow> bool" where
  "from_bullet ls b = (\<exists>l\<in>set ls. is_bullet_line (py_strip l) \<and> b = bullet_text (py_strip l))"

subsection \<open>Environments and providers of the scenarios\<close>

definition xai_env :: env where
  "xai_env = [str ''XAI_API_KEY'' \<mapsto> str ''key'']"

text \<open>A provider whose reply has a space on each side, and one that fails.\<close>

definition padded_chat :: "ustr \<Rightarrow> ustr \<Rightarrow> exn + ustr option" where
  "padded_chat client topic = Inr (Some (str '' oops ''))"

definition failing_chat :: "ustr \<Rightarrow> ustr \<Rightarrow> exn + ustr option" where
  "failing_chat client topic = Inl (OtherException (str ''Connection error.''))"

text \<open>A decoder for the rest of \<open>json.loads\<close> that accepts every text.\<close>

definition null_decoder :: "ustr \<Rightarrow> exn + json" where
  "null_decoder s = Inr JNull"

text \<open>An environment with a search key, search results, and two search providers.\<close>

definition tavily_env :: env where
  "tavily_env = [str ''TAVILY_API_KEY'' \<mapsto> str ''tvly'']"

definition hit :: "string \<Rightarrow> ustr pydict" where
  "hit name =
     [str ''url'' \<mapsto> str ''https://example.org/'' @ str name, str ''title'' \<mapsto> str name,
      str ''content'' \<mapsto> str ''text of '' @ str name, str ''score'' \<mapsto> str ''0.9'']"

text \<open>Two recent results and four without the time filter.\<close>

definition sparse_search :: "ustr \<Rightarrow> search_request \<Rightarrow> exn + ustr pydict list option" where
  "sparse_search k r =
     (if time_range r = Some (str ''year'') then Inr (Some [hit ''a'', hit ''b''])
      else Inr (Some [hit ''c'', hit ''d'', hit ''e'', hit ''f'']))"

text \<open>Three recent results.\<close>

definition rich_search :: "ustr \<Rightarrow> search_request \<Rightarrow> exn + ustr pydict list option" where
  "rich_search k r =
     (if time_range r = Some (str ''year'') then Inr (Some [hit ''a'', hit ''b'', hit ''c''])
      else Inr (Some [hit ''d'']))"

text \<open>
  A store whose file holds the JSON value itself: writing and reading a value gives it
  back.
\<close>

definition dump_id :: "json \<Rightarrow> json" where
  "dump_id v = v"

definition load_id :: "json \<Rightarrow> exn + json" where
  "load_id c = Inr c"

definition storm_entry :: json where
  "storm_entry =
     new_entry (str ''2026-01-01 10:00:00'') (JStr (str ''storm'')) (JStr (str ''85'')) (JStr [])
       JNull"

section \<open>Facts about the string operations\<close>

declare py_replace.simps [simp del]

declare py_split_str.simps [simp del]

text \<open>The definitions that evaluate a scan on a concrete text.\<close>

lemmas run_defs = str_def nl_def bullet_def py_strip_def py_isspace_def startswith_def
  py_upper_def py_upper_char_def uncased_def is_bullet_line_def bullet_text_def
  bullet_chars_def py_lstrip_def confidence_of_def py_replace.simps

lemma py_split_nonempty: "py_split d s \<noteq> []"
  by (induction s) (auto split: list.splits)

lemma py_split_no_sep: "d \<notin> set line \<Longrightarrow> py_split d line = [line]"
  by (induction line) auto

lemma py_split_append_line:
  "d \<notin> set line \<Longrightarrow> py_split d (pre @ d # line) = py_split d pre @ [line]"
proof (induction pre)
  case Nil
  then show ?case by (simp add: py_split_no_sep)
next
  case (Cons c cs)
  obtain l ls where "py_split d cs = l # ls"
    using py_split_nonempty [of d cs] by (cases "py_split d cs") auto
  with Cons show ?case by simp
qed

text \<open>
  \<open>strip\<close> returns the empty string exactly on strings of white space, and what it
  returns begins with the first character of the input that is not white space.
\<close>

lemma py_strip_empty_iff: "py_strip s = [] \<longleftrightarrow> (\<forall>c\<in>set s. py_isspace c)"
proof -
  have "py_strip s = [] \<longleftrightarrow> (\<forall>c\<in>set (dropWhile py_isspace s). py_isspace c)"
    by (simp add: py_strip_def dropWhile_eq_Nil_conv)
  also have "\<dots> \<longleftrightarrow> dropWhile py_isspace s = []"
    using hd_dropWhile [of py_isspace s]
    by (cases "dropWhile py_isspace s") (auto simp del: dropWhile_eq_Nil_conv)
  also have "\<dots> \<longleftrightarrow> (\<forall>c\<in>set s. py_isspace c)"
    by (simp add: dropWhile_eq_Nil_conv)
  finally show ?thesis .
qed

lemma py_strip_prefix: "prefix (py_strip s) (dropWhile py_isspace s)"
proof -
  have "suffix (dropWhile py_isspace (rev (dropWhile py_isspace s))) (rev (dropWhile py_isspace s))"
    by (rule suffix_dropWhile)
  then show ?thesis
    unfolding py_strip_def by (metis suffix_to_prefix rev_rev_ident)
qed

lemma py_strip_hd: "py_strip s \<noteq> [] \<Longrightarrow> hd (py_strip s) = hd (dropWhile py_isspace s)"
  using py_strip_prefix [of s] by (cases "py_strip s") (auto simp: prefix_def)

lemma py_strip_hd_not_space: "py_strip s \<noteq> [] \<Longrightarrow> \<not> py_isspace (hd (py_strip s))"
proof -
  assume a: "py_strip s \<noteq> []"
  then have "dropWhile py_isspace s \<noteq> []"
    using py_strip_prefix [of s] by (auto simp del: dropWhile_eq_Nil_conv)
  then have "\<not> py_isspace (hd (dropWhile py_isspace s))" by (rule hd_dropWhile)
  with a show ?thesis by (simp add: py_strip_hd)
qed

lemma py_strip_keeps_head:
  assumes "t \<noteq> []" "\<not> py_isspace (hd t)"
  shows "py_strip t \<noteq> [] \<and> hd (py_strip t) = hd t"
proof -
  from assms have d: "dropWhile py_isspace t = t" by (cases t) auto
  from assms have "\<not> (\<forall>c\<in>set t. py_isspace c)" by (cases t) auto
  then have ne: "py_strip t \<noteq> []" by (simp add: py_strip_empty_iff)
  with d show ?thesis by (simp add: py_strip_hd)
qed

lemma py_lstrip_hd: "py_lstrip chars s \<noteq> [] \<Longrightarrow> hd (py_lstrip chars s) \<notin> set chars"
  unfolding py_lstrip_def using hd_dropWhile [of "\<lambda>c. c \<in> set chars" s] by simp

section \<open>The Report Normalizer\<close>

text \<open>Parsing a text with one more line is one more step of the loop.\<close>

lemma scan_append_line:
  "nl \<notin> set line \<Longrightarrow> scan U (pre @ nl # line) = scan_line U (scan U pre) line"
  by (simp add: scan_def py_split_append_line)

lemma bullet_line_not_empty: "is_bullet_line l \<Longrightarrow> l \<noteq> []"
  by (auto simp: is_bullet_line_def startswith_def str_def)

lemma bullet_line_not_confidence: "is_bullet_line l \<Longrightarrow> \<not> startswith l (str ''CONFIDENCE:'')"
  by (cases l) (auto simp: is_bullet_line_def startswith_def str_def bullet_def)

subsection \<open>Scenario A\<close>

lemma scan_A_lines:
  "py_split nl scenario_A =
     [str ''CONFIDENCE: 85%'', [], str ''KEY FINDINGS:'', bullet # str '' Fact one'',
      bullet # str '' Fact two'', [], str ''UNVERIFIED:'', bullet # str '' Rumor one'', [],
      str ''SUMMARY:'', str ''All good.'']"
  by (simp add: scenario_A_def str_def nl_def bullet_def)

lemma scan_A:
  "scan uncased scenario_A =
     \<lparr>confidence = str ''85'', key_findings = [str ''Fact one'', str ''Fact two''],
      unverified = [str ''Rumor one''], summary = str ''All good. '',
      current_section = Some Sec_summary\<rparr>"
  unfolding scan_def scan_A_lines
  by (simp add: scan_init_def scan_line_def run_defs)

text \<open>
  C1. On the raw text of scenario A the scanning pass produces confidence \<open>85\<close>, the
  key findings \<open>Fact one\<close> and \<open>Fact two\<close>, the unverified claim \<open>Rumor one\<close>
  and, after the final trimming, the summary \<open>All good.\<close>; the function returns
  these in the markup, with the confidence beside it.
\<close>

theorem C1_scenario_A:
  "confidence (scan uncased scenario_A) = str ''85'' \<and>
   key_findings (scan uncased scenario_A) = [str ''Fact one'', str ''Fact two''] \<and>
   unverified (scan uncased scenario_A) = [str ''Rumor one''] \<and>
   py_strip (summary (scan uncased scenario_A)) = str ''All good.'' \<and>
   parse_gemini_to_html uncased scenario_A topic =
     (\<lparr>findings_items = [str ''Fact one'', str ''Fact two''],
       unverified_items = [str ''Rumor one''],
       summary_block = str ''All good.''\<rparr>, str ''85'')"
  unfolding parse_gemini_to_html_def scan_A
  by (simp add: build_html_def str_def py_strip_def py_isspace_def)

subsection \<open>Bullet lines and section headers\<close>

lemma scan_summary_bullet:
  "scan uncased summary_bullet_text =
     \<lparr>confidence = str ''N/A'', key_findings = [], unverified = [], summary = [],
      current_section = Some Sec_summary\<rparr>"
proof -
  have "py_split nl summary_bullet_text =
      [str ''KEY FINDINGS:'', bullet # str '' Summary of events'', bullet # str '' Second fact'']"
    by (simp add: summary_bullet_text_def str_def nl_def bullet_def)
  then show ?thesis
    unfolding scan_def by (simp add: scan_init_def scan_line_def run_defs)
qed

text \<open>
  C2, as the claim states it, fails: in a findings section the bullet line
  \<open>\<bullet> Summary of events\<close> switches the section to the summary and is appended to
  no list, and the bullet that follows it is dropped as well.
\<close>

theorem C2_counterexample:
  "current_section (scan uncased (str ''KEY FINDINGS:'')) = Some Sec_findings \<and>
   is_bullet_line (bullet # str '' Summary of events'') \<and>
   py_in (str ''SUMMARY'') (py_upper uncased (bullet # str '' Summary of events'')) \<and>
   current_section
     (scan uncased (str ''KEY FINDINGS:'' @ [nl] @ bullet # str '' Summary of events'')) =
     Some Sec_summary \<and>
   key_findings
     (scan uncased (str ''KEY FINDINGS:'' @ [nl] @ bullet # str '' Summary of events'')) = [] \<and>
   key_findings (scan uncased summary_bullet_text) = []"
  unfolding scan_summary_bullet
  by (simp add: scan_def scan_init_def scan_line_def run_defs)

text \<open>
  C2, amended. A bullet line is tested against the header patterns like every other
  line, before the bullet check: when its upper-cased text contains \<open>KEY FINDINGS\<close>,
  \<open>UNVERIFIED\<close> or \<open>SUMMARY\<close> it switches the section (to the first of these that
  matches) and is appended to no list. A bullet line that contains none of them leaves
  the section as it is and is appended to the list of the section in effect, findings or
  unverified, and dropped in any other.
\<close>

theorem C2_bullet_lines:
  assumes "nl \<notin> set line" and "is_bullet_line (py_strip line)"
  shows "scan U (pre @ nl # line) =
     (let st = scan U pre; l = py_strip line in
      if py_in (str ''KEY FINDINGS'') (py_upper U l) then st\<lparr>current_section := Some Sec_findings\<rparr>
      else if py_in (str ''UNVERIFIED'') (py_upper U l) then st\<lparr>current_section := Some Sec_unverified\<rparr>
      else if py_in (str ''SUMMARY'') (py_upper U l) then st\<lparr>current_section := Some Sec_summary\<rparr>
      else if current_section st = Some Sec_findings then
        st\<lparr>key_findings := key_findings st @ [bullet_text l]\<rparr>
      else if current_section st = Some Sec_unverified then
        st\<lparr>unverified := unverified st @ [bullet_text l]\<rparr>
      else st)"
proof -
  have "scan U (pre @ nl # line) = scan_line U (scan U pre) line"
    using assms(1) by (rule scan_append_line)
  moreover have "py_strip line \<noteq> []"
    using assms(2) by (rule bullet_line_not_empty)
  moreover have "\<not> startswith (py_strip line) (str ''CONFIDENCE:'')"
    using assms(2) by (rule bullet_line_not_confidence)
  ultimately show ?thesis
    using assms(2) by (simp add: scan_line_def Let_def)
qed

theorem C2_bullet_lines_witness:
  "nl \<notin> set (bullet # str '' Fact one'') \<and>
   is_bullet_line (py_strip (bullet # str '' Fact one'')) \<and>
   scan uncased (str ''KEY FINDINGS:'' @ nl # bullet # str '' Fact one'') =
     \<lparr>confidence = str ''N/A'', key_findings = [str ''Fact one''], unverified = [],
      summary = [], current_section = Some Sec_findings\<rparr>"
proof -
  have h1: "nl \<notin> set (bullet # str '' Fact one'')"
    by (simp add: nl_def bullet_def str_def)
  have h2: "is_bullet_line (py_strip (bullet # str '' Fact one''))"
    by (simp add: run_defs)
  have s: "scan uncased (str ''KEY FINDINGS:'') =
      \<lparr>confidence = str ''N/A'', key_findings = [], unverified = [], summary = [],
       current_section = Some Sec_findings\<rparr>"
    by (simp add: scan_def scan_init_def scan_line_def run_defs)
  show ?thesis
    using h1 h2 C2_bullet_lines [OF h1 h2, of uncased "str ''KEY FINDINGS:''"]
    unfolding s by (simp add: run_defs)
qed

subsection \<open>The summary\<close>

text \<open>
  The accumulated summary is empty or has a character that is not white space: every
  line added to it is a non-empty stripped line.
\<close>

lemma scan_line_summary:
  "summary st = [] \<or> py_strip (summary st) \<noteq> [] \<Longrightarrow>
   summary (scan_line U st l) = [] \<or> py_strip (summary (scan_line U st l)) \<noteq> []"
proof -
  assume a: "summary st = [] \<or> py_strip (summary st) \<noteq> []"
  have "py_strip l \<noteq> [] \<Longrightarrow> py_strip (summary st @ py_strip l @ str '' '') \<noteq> []"
  proof -
    assume ne: "py_strip l \<noteq> []"
    then have "\<not> py_isspace (hd (py_strip l))" by (rule py_strip_hd_not_space)
    with ne have "\<exists>c\<in>set (py_strip l). \<not> py_isspace c" by (cases "py_strip l") auto
    then show ?thesis by (auto simp: py_strip_empty_iff)
  qed
  with a show ?thesis by (auto simp: scan_line_def Let_def)
qed

lemma foldl_scan_line_summary:
  "summary st = [] \<or> py_strip (summary st) \<noteq> [] \<Longrightarrow>
   summary (foldl (scan_line U) st ls) = [] \<or> py_strip (summary (foldl (scan_line U) st ls)) \<noteq> []"
proof (induction ls arbitrary: st)
  case Nil
  then show ?case by simp
next
  case (Cons l ls)
  from Cons.prems have "summary (scan_line U st l) = [] \<or> py_strip (summary (scan_line U st l)) \<noteq> []"
    by (rule scan_line_summary)
  then show ?case using Cons.IH by simp
qed

lemma scan_summary: "summary (scan U raw) = [] \<or> py_strip (summary (scan U raw)) \<noteq> []"
  unfolding scan_def by (rule foldl_scan_line_summary) (simp add: scan_init_def)

text \<open>
  C5. For every raw text the markup has a summary, which is never empty: when the scan
  accumulated no summary it is the fixed placeholder, and otherwise the trimmed
  accumulated summary.
\<close>

theorem C5_summary_placeholder:
  "summary_block (fst (parse_gemini_to_html U raw topic)) =
     (if summary (scan U raw) = [] then summary_placeholder else py_strip (summary (scan U raw))) \<and>
   summary_block (fst (parse_gemini_to_html U raw topic)) \<noteq> [] \<and>
   summary_placeholder \<noteq> []"
proof -
  have "py_strip [] = []" by (simp add: py_strip_def)
  then show ?thesis
    using scan_summary [of U raw]
    by (auto simp: parse_gemini_to_html_def build_html_def Let_def summary_placeholder_def str_def)
qed

subsection \<open>The confidence value\<close>

text \<open>
  C6, as the claim states it, fails: the text after \<open>CONFIDENCE:\<close> is stored without
  any validation, so \<open>CONFIDENCE: 150\<close> gives \<open>150\<close> and \<open>CONFIDENCE: high\<close>
  gives \<open>high\<close>, neither an integer from 0 to 100 nor \<open>N/A\<close>.
\<close>

theorem C6_counterexample:
  "snd (parse_gemini_to_html uncased (str ''CONFIDENCE: 150'') (str ''storm'')) = str ''150'' \<and>
   \<not> spec_confidence_ok (snd (parse_gemini_to_html uncased (str ''CONFIDENCE: 150'') (str ''storm''))) \<and>
   snd (parse_gemini_to_html uncased (str ''CONFIDENCE: high'') (str ''storm'')) = str ''high'' \<and>
   \<not> spec_confidence_ok (snd (parse_gemini_to_html uncased (str ''CONFIDENCE: high'') (str ''storm'')))"
  by (simp add: parse_gemini_to_html_def scan_def scan_init_def scan_line_def run_defs
      spec_confidence_ok_def is_digit_def digits_value_def)

lemma confidence_scan_line:
  "confidence (scan_line U st l) =
     (if startswith (py_strip l) (str ''CONFIDENCE:'') then confidence_of (py_strip l)
      else confidence st)"
  by (auto simp: scan_line_def Let_def startswith_def str_def)

lemma confidence_foldl:
  "confidence (foldl (scan_line U) st ls) =
     (let cs = filter (\<lambda>l. startswith l (str ''CONFIDENCE:'')) (map py_strip ls) in
      if cs = [] then confidence st else confidence_of (last cs))"
proof (induction ls arbitrary: st)
  case Nil
  then show ?case by simp
next
  case (Cons l ls)
  show ?case
    by (simp add: Cons.IH confidence_scan_line Let_def)
qed

text \<open>
  C6, amended. The confidence is \<open>N/A\<close> when no trimmed line begins with
  \<open>CONFIDENCE:\<close>; otherwise it is what the last such line leaves once every
  \<open>CONFIDENCE:\<close> is removed, the rest trimmed and every \<open>%\<close> removed. It is a
  string, not validated: it need not be numeric or within 0 to 100.
\<close>

theorem C6_confidence_unvalidated:
  "snd (parse_gemini_to_html U raw topic) =
     (let cs = filter (\<lambda>l. startswith l (str ''CONFIDENCE:'')) (map py_strip (py_split nl raw)) in
      if cs = [] then str ''N/A'' else confidence_of (last cs))"
  by (simp add: parse_gemini_to_html_def scan_def confidence_foldl Let_def scan_init_def)

subsection \<open>The text of a bullet\<close>

text \<open>
  C10, as the claim states it, fails: the run of bullet characters ends at a tab, which
  the final \<open>strip\<close> removes, and the dash behind it stays in front.
\<close>

theorem C10_counterexample:
  "key_findings (scan uncased tab_bullet_text) = [str ''-5 degrees''] \<and>
   hd (str ''-5 degrees'') \<in> set bullet_chars"
proof -
  have "py_split nl tab_bullet_text = [str ''KEY FINDINGS:'', str ''-'' @ [9] @ str ''-5 degrees'']"
    by (simp add: tab_bullet_text_def str_def nl_def)
  then show ?thesis
    unfolding scan_def by (simp add: scan_init_def scan_line_def run_defs)
qed

lemma from_bullet_Cons: "from_bullet ls b \<Longrightarrow> from_bullet (l # ls) b"
  by (auto simp: from_bullet_def)

lemma scan_line_bullets:
  "b \<in> set (key_findings (scan_line U st l)) \<union> set (unverified (scan_line U st l)) \<Longrightarrow>
   b \<in> set (key_findings st) \<union> set (unverified st) \<or>
   (is_bullet_line (py_strip l) \<and> b = bullet_text (py_strip l))"
  by (auto simp: scan_line_def Let_def split: if_splits)

lemma foldl_scan_line_bullets:
  "b \<in> set (key_findings (foldl (scan_line U) st ls)) \<union> set (unverified (foldl (scan_line U) st ls)) \<Longrightarrow>
   b \<in> set (key_findings st) \<union> set (unverified st) \<or> from_bullet ls b"
proof (induction ls arbitrary: st)
  case Nil
  then show ?case by simp
next
  case (Cons l ls)
  from Cons.prems have
    "b \<in> set (key_findings (scan_line U st l)) \<union> set (unverified (scan_line U st l)) \<or> from_bullet ls b"
    using Cons.IH [of "scan_line U st l"] by simp
  then show ?case
  proof
    assume "b \<in> set (key_findings (scan_line U st l)) \<union> set (unverified (scan_line U st l))"
    then have "b \<in> set (key_findings st) \<union> set (unverified st) \<or>
       (is_bullet_line (py_strip l) \<and> b = bullet_text (py_strip l))"
      by (rule scan_line_bullets)
    then show ?thesis by (auto simp: from_bullet_def)
  next
    assume "from_bullet ls b"
    then show ?thesis by (simp add: from_bullet_Cons)
  qed
qed

lemma bullet_text_head:
  "(bullet_text l = [] \<or> \<not> py_isspace (hd (bullet_text l))) \<and>
   (py_lstrip bullet_chars l = [] \<or> hd (py_lstrip bullet_chars l) \<notin> set bullet_chars) \<and>
   (py_lstrip bullet_chars l \<noteq> [] \<and> \<not> py_isspace (hd (py_lstrip bullet_chars l)) \<longrightarrow>
      bullet_text l \<noteq> [] \<and> hd (bullet_text l) \<notin> set bullet_chars)"
  using py_strip_hd_not_space [of "py_lstrip bullet_chars l"]
    py_lstrip_hd [of bullet_chars l]
    py_strip_keeps_head [of "py_lstrip bullet_chars l"]
  by (auto simp: bullet_text_def)

lemma scan_degrees:
  "key_findings (scan uncased degrees_text) = [str ''5 degrees expected''] \<and>
   unverified (scan uncased degrees_text) = []"
proof -
  have "py_split nl degrees_text = [str ''KEY FINDINGS:'', bullet # str '' -5 degrees expected'']"
    by (simp add: degrees_text_def str_def nl_def bullet_def)
  then show ?thesis
    unfolding scan_def by (simp add: scan_init_def scan_line_def run_defs)
qed

text \<open>
  C10, amended. Every string appended to the key findings or to the unverified claims is
  the text of a bullet line of the input: the trimmed line without its whole leading run
  of bullet, dash, star and space, trimmed again. What is left of the line after that run
  begins with none of the four characters. The appended string begins with no white space,
  so not with a space, and it begins with none of the four characters whenever the
  character after the run is not white space. The bullet \<open>\<bullet> -5 degrees expected\<close>
  gives \<open>5 degrees expected\<close>.
\<close>

theorem C10_bullet_text:
  assumes "b \<in> set (key_findings (scan U raw)) \<union> set (unverified (scan U raw))"
  shows "(\<exists>l\<in>set (py_split nl raw).
            is_bullet_line (py_strip l) \<and> b = bullet_text (py_strip l) \<and>
            (py_lstrip bullet_chars (py_strip l) = [] \<or>
             hd (py_lstrip bullet_chars (py_strip l)) \<notin> set bullet_chars) \<and>
            (py_lstrip bullet_chars (py_strip l) \<noteq> [] \<and>
             \<not> py_isspace (hd (py_lstrip bullet_chars (py_strip l))) \<longrightarrow>
               b \<noteq> [] \<and> hd b \<notin> set bullet_chars)) \<and>
         (b = [] \<or> (\<not> py_isspace (hd b) \<and> hd b \<noteq> 32)) \<and>
         key_findings (scan uncased degrees_text) = [str ''5 degrees expected'']"
proof -
  from assms have "from_bullet (py_split nl raw) b"
    using foldl_scan_line_bullets [of b U scan_init "py_split nl raw"]
    by (simp add: scan_def scan_init_def)
  then obtain l where l: "l \<in> set (py_split nl raw)" "is_bullet_line (py_strip l)"
      "b = bullet_text (py_strip l)"
    by (auto simp: from_bullet_def)
  have sp: "py_isspace 32" by (simp add: py_isspace_def)
  from l(3) bullet_text_head [of "py_strip l"]
  have "b = [] \<or> (\<not> py_isspace (hd b) \<and> hd b \<noteq> 32)" using sp by auto
  moreover have "\<exists>l\<in>set (py_split nl raw).
            is_bullet_line (py_strip l) \<and> b = bullet_text (py_strip l) \<and>
            (py_lstrip bullet_chars (py_strip l) = [] \<or>
             hd (py_lstrip bullet_chars (py_strip l)) \<notin> set bullet_chars) \<and>
            (py_lstrip bullet_chars (py_strip l) \<noteq> [] \<and>
             \<not> py_isspace (hd (py_lstrip bullet_chars (py_strip l))) \<longrightarrow>
               b \<noteq> [] \<and> hd b \<notin> set bullet_chars)"
    using l bullet_text_head [of "py_strip l"] by blast
  ultimately show ?thesis using scan_degrees by blast
qed

theorem C10_bullet_text_witness:
  "str ''5 degrees expected'' \<in>
     set (key_findings (scan uncased degrees_text)) \<union> set (unverified (scan uncased degrees_text)) \<and>
   \<not> py_isspace (hd (str ''5 degrees expected'')) \<and>
   hd (str ''5 degrees expected'') \<noteq> 32"
proof -
  have h: "str ''5 degrees expected'' \<in>
     set (key_findings (scan uncased degrees_text)) \<union> set (unverified (scan uncased degrees_text))"
    by (simp add: scan_degrees)
  have "str ''5 degrees expected'' \<noteq> []" by (simp add: str_def)
  with C10_bullet_text [OF h] h show ?thesis by blast
qed

section \<open>The Social-Signal Fetcher\<close>

lemma py_split_str_nonempty: "py_split_str sep s \<noteq> []"
  by (subst py_split_str.simps) (auto split: list.splits)

text \<open>A text that starts with the fence splits into at least two parts.\<close>

lemma strip_fence_returns: "\<exists>c. strip_fence s = Inr c"
proof (cases "startswith s fence")
  case False
  then show ?thesis by (simp add: strip_fence_def)
next
  case True
  then have p: "prefix fence s" and ne: "s \<noteq> []"
    by (auto simp: startswith_def fence_def)
  obtain l ls where r: "py_split_str fence (drop (length fence) s) = l # ls"
    using py_split_str_nonempty [of fence "drop (length fence) s"]
    by (cases "py_split_str fence (drop (length fence) s)") auto
  have "py_split_str fence s = [] # l # ls"
    using p ne r by (subst py_split_str.simps) (simp add: fence_def)
  then show ?thesis using True by (simp add: strip_fence_def)
qed

lemma strip_fence_cleaned: "strip_fence (py_strip text) = Inr c \<Longrightarrow> cleaned text = py_strip c"
  by (simp add: cleaned_def)

lemma x_intel_try_text:
  assumes "chat client topic = Inr (Some text)"
  shows "x_intel_try chat loads client topic =
     (case loads (cleaned text) of Inl ex \<Rightarrow> Inl (ex, Some (cleaned text)) | Inr v \<Rightarrow> Inr v)"
proof -
  obtain c where c: "strip_fence (py_strip text) = Inr c"
    using strip_fence_returns by blast
  then have "cleaned text = py_strip c" by (rule strip_fence_cleaned)
  then show ?thesis
    using assms c by (simp add: x_intel_try_def Let_def split: sum.splits)
qed

lemma cleaned_plain:
  "py_strip text = text \<Longrightarrow> \<not> startswith text fence \<Longrightarrow> cleaned text = text"
  by (simp add: cleaned_def strip_fence_def)

text \<open>
  \<open>strip\<close> never lengthens a string, what it returns ends with a character that is
  not white space, and stripping twice is stripping once.
\<close>

lemma py_strip_length: "length (py_strip s) \<le> length s"
proof -
  have "length (py_strip s) \<le> length (dropWhile py_isspace s)"
    using py_strip_prefix [of s] by (rule prefix_length_le)
  also have "\<dots> \<le> length s" by (rule length_dropWhile_le)
  finally show ?thesis .
qed

lemma py_strip_last_not_space: "py_strip s \<noteq> [] \<Longrightarrow> \<not> py_isspace (last (py_strip s))"
proof -
  assume a: "py_strip s \<noteq> []"
  let ?d = "dropWhile py_isspace (rev (dropWhile py_isspace s))"
  from a have ne: "?d \<noteq> []" by (simp add: py_strip_def del: dropWhile_eq_Nil_conv)
  then have "\<not> py_isspace (hd ?d)" by (rule hd_dropWhile)
  moreover have "last (py_strip s) = hd ?d"
    using ne by (simp add: py_strip_def last_rev del: dropWhile_eq_Nil_conv)
  ultimately show ?thesis by simp
qed

lemma py_strip_fixed:
  assumes "t \<noteq> []" "\<not> py_isspace (hd t)" "\<not> py_isspace (last t)"
  shows "py_strip t = t"
proof -
  from assms have d: "dropWhile py_isspace t = t" by (cases t) auto
  from assms have "rev t \<noteq> []" "\<not> py_isspace (hd (rev t))" by (simp_all add: hd_rev)
  then have "dropWhile py_isspace (rev t) = rev t" by (cases "rev t") auto
  with d show ?thesis by (simp add: py_strip_def)
qed

lemma py_strip_twice: "py_strip (py_strip s) = py_strip s"
proof (cases "py_strip s = []")
  case True
  have "py_strip [] = []" by (simp add: py_strip_def)
  with True show ?thesis by simp
next
  case False
  then show ?thesis
    using py_strip_hd_not_space [of s] py_strip_last_not_space [of s] by (simp add: py_strip_fixed)
qed

text \<open>
  The first part of a split is no longer than the string, so the text taken out of a
  fence is shorter than the fenced text; hence the text that reaches the decoder is the
  reply itself only for a reply without white space around it and without a fence.
\<close>

lemma hd_py_split_str_length: "length (hd (py_split_str sep s)) \<le> length s"
proof (induction sep s rule: py_split_str.induct)
  case (1 sep s)
  show ?case
  proof (cases "s = []")
    case True
    then show ?thesis by (subst py_split_str.simps) simp
  next
    case ne: False
    show ?thesis
    proof (cases "sep \<noteq> [] \<and> prefix sep s")
      case True
      then show ?thesis using ne by (subst py_split_str.simps) simp
    next
      case False
      then have ih: "length (hd (py_split_str sep (tl s))) \<le> length (tl s)"
        using "1.IH"(2) ne by blast
      obtain l ls where r: "py_split_str sep (tl s) = l # ls"
        using py_split_str_nonempty [of sep "tl s"] by (cases "py_split_str sep (tl s)") auto
      have "py_split_str sep s = (hd s # l) # ls"
        using ne False r by (subst py_split_str.simps) auto
      then show ?thesis using ih r ne by (cases s) auto
    qed
  qed
qed

lemma strip_fence_shorter:
  assumes "startswith s fence" and "strip_fence s = Inr c"
  shows "length c < length s"
proof -
  from assms(1) have p: "prefix fence s" and ne: "s \<noteq> []"
    by (auto simp: startswith_def fence_def)
  then have len: "3 \<le> length s"
    using prefix_length_le [of fence s] by (simp add: fence_def)
  obtain l ls where r: "py_split_str fence (drop (length fence) s) = l # ls"
    using py_split_str_nonempty [of fence "drop (length fence) s"]
    by (cases "py_split_str fence (drop (length fence) s)") auto
  have sp: "py_split_str fence s = [] # l # ls"
    using p ne r by (subst py_split_str.simps) (simp add: fence_def)
  have "length l \<le> length (drop (length fence) s)"
    using hd_py_split_str_length [of fence "drop (length fence) s"] r by simp
  then have ll: "length l \<le> length s - 3" by (simp add: fence_def)
  from assms sp have "c = (if startswith l (str ''json'') then drop 4 l else l)"
    by (simp add: strip_fence_def)
  then have "length c \<le> length l" by simp
  with ll len show ?thesis by simp
qed

lemma cleaned_eq_iff:
  "cleaned text = text \<longleftrightarrow> py_strip text = text \<and> \<not> startswith text fence"
proof
  assume "py_strip text = text \<and> \<not> startswith text fence"
  then show "cleaned text = text" by (simp add: cleaned_plain)
next
  assume eq: "cleaned text = text"
  obtain c where c: "strip_fence (py_strip text) = Inr c"
    using strip_fence_returns by blast
  then have cl: "cleaned text = py_strip c" by (rule strip_fence_cleaned)
  have nf: "\<not> startswith (py_strip text) fence"
  proof
    assume "startswith (py_strip text) fence"
    then have "length c < length (py_strip text)" using c by (rule strip_fence_shorter)
    moreover have "length (py_strip c) \<le> length c" by (rule py_strip_length)
    moreover have "length (py_strip text) \<le> length text" by (rule py_strip_length)
    ultimately have "length (cleaned text) < length text" using cl by simp
    with eq show False by simp
  qed
  then have "c = py_strip text" using c by (simp add: strip_fence_def)
  then have "cleaned text = py_strip text" using cl by (simp add: py_strip_twice)
  with eq have "py_strip text = text" by simp
  with nf show "py_strip text = text \<and> \<not> startswith text fence" by simp
qed

text \<open>
  When the provider call itself raises a JSON decoding error, the first handler runs
  before \<open>content\<close> is assigned, and reading it raises.
\<close>

lemma x_intel_unbound_content:
  assumes "get_xai_client e = Some k" and "chat k topic = Inl (JSONDecodeError m)"
  shows "\<exists>t. get_x_intel e chat loads topic = Inl (UnboundLocalError t)"
  using assms by (simp add: get_x_intel_def x_intel_try_def)

text \<open>
  C3, as the claim states it, fails: for the reply \<open>oops\<close> with a space on each side,
  the field \<open>raw\<close> holds the trimmed text, not the text of the reply.
\<close>

theorem C3_counterexample:
  "get_x_intel xai_env padded_chat (json_loads null_decoder) (str ''storm'') =
     Inr (ErrorDict
       (str ''Failed to parse Grok response: Expecting value: line 1 column 1 (char 0)'')
       (Some (str ''oops''))) \<and>
   padded_chat (str ''key'') (str ''storm'') = Inr (Some (str '' oops '')) \<and>
   str ''oops'' \<noteq> str '' oops ''"
  by (simp add: get_x_intel_def get_xai_client_def xai_env_def truthy_def x_intel_try_def
      padded_chat_def strip_fence_def json_loads_def json_ws_def json_value_start_def
      fence_def str_def py_strip_def py_isspace_def startswith_def)

text \<open>
  C3, amended. Without a configured key the result is the dictionary with \<open>error\<close>
  alone. When the provider call raises an exception other than a JSON decoding error, the
  result is the dictionary with \<open>error\<close> alone. When the provider returns a text and
  \<open>json.loads\<close> raises \<open>JSONDecodeError\<close> on it, the result has \<open>error\<close>
  and \<open>raw\<close>, and \<open>raw\<close> is the text that reached the decoder: the reply
  trimmed, taken out of its code fence and trimmed again. That text is the reply itself
  exactly when the reply has no white space around it and no fence in front. When
  \<open>json.loads\<close> raises any other exception, the result is the dictionary with
  \<open>error\<close> alone. Whenever the provider call does not raise a JSON decoding error,
  the function returns and does not raise.
\<close>

theorem C3_x_intel_errors:
  "(get_xai_client e = None \<longrightarrow>
      get_x_intel e chat loads topic =
        Inr (ErrorDict (str ''XAI_API_KEY not configured'') None)) \<and>
   (get_xai_client e = Some client \<and> chat client topic = Inl ex \<and>
    (\<forall>m. ex \<noteq> JSONDecodeError m) \<longrightarrow>
      get_x_intel e chat loads topic =
        Inr (ErrorDict (str ''Error calling Grok API: '' @ exn_text ex) None)) \<and>
   (get_xai_client e = Some client \<and> chat client topic = Inr (Some text) \<and>
    loads (cleaned text) = Inl (JSONDecodeError m) \<longrightarrow>
      get_x_intel e chat loads topic =
        Inr (ErrorDict (str ''Failed to parse Grok response: '' @ m) (Some (cleaned text)))) \<and>
   (get_xai_client e = Some client \<and> chat client topic = Inr (Some text) \<and>
    loads (cleaned text) = Inl ex' \<and> (\<forall>m. ex' \<noteq> JSONDecodeError m) \<longrightarrow>
      get_x_intel e chat loads topic =
        Inr (ErrorDict (str ''Error calling Grok API: '' @ exn_text ex') None)) \<and>
   (py_strip text = text \<and> \<not> startswith text fence \<longrightarrow> cleaned text = text) \<and>
   (cleaned text = text \<longrightarrow> py_strip text = text \<and> \<not> startswith text fence) \<and>
   ((\<forall>k m. get_xai_client e = Some k \<longrightarrow> chat k topic \<noteq> Inl (JSONDecodeError m)) \<longrightarrow>
      (\<exists>r. get_x_intel e chat loads topic = Inr r))"
proof -
  have other: "get_xai_client e = Some client \<Longrightarrow> chat client topic = Inr (Some text) \<Longrightarrow>
      loads (cleaned text) = Inl ex' \<Longrightarrow> \<forall>m. ex' \<noteq> JSONDecodeError m \<Longrightarrow>
      get_x_intel e chat loads topic =
        Inr (ErrorDict (str ''Error calling Grok API: '' @ exn_text ex') None)"
    by (cases ex') (simp_all add: get_x_intel_def x_intel_try_text)
  have conv: "cleaned text = text \<Longrightarrow> py_strip text = text \<and> \<not> startswith text fence"
    by (simp add: cleaned_eq_iff)
  have config: "get_xai_client e = None \<Longrightarrow>
      get_x_intel e chat loads topic = Inr (ErrorDict (str ''XAI_API_KEY not configured'') None)"
    by (simp add: get_x_intel_def)
  have transport: "get_xai_client e = Some client \<Longrightarrow> chat client topic = Inl ex \<Longrightarrow>
      \<forall>m. ex \<noteq> JSONDecodeError m \<Longrightarrow>
      get_x_intel e chat loads topic =
        Inr (ErrorDict (str ''Error calling Grok API: '' @ exn_text ex) None)"
    by (cases ex) (simp_all add: get_x_intel_def x_intel_try_def)
  have parse: "get_xai_client e = Some client \<Longrightarrow> chat client topic = Inr (Some text) \<Longrightarrow>
      loads (cleaned text) = Inl (JSONDecodeError m) \<Longrightarrow>
      get_x_intel e chat loads topic =
        Inr (ErrorDict (str ''Failed to parse Grok response: '' @ m) (Some (cleaned text)))"
    by (simp add: get_x_intel_def x_intel_try_text)
  have total: "\<exists>r. get_x_intel e chat loads topic = Inr r"
    if h: "\<forall>k m. get_xai_client e = Some k \<longrightarrow> chat k topic \<noteq> Inl (JSONDecodeError m)"
  proof (cases "get_xai_client e")
    case None
    then show ?thesis by (simp add: config)
  next
    case (Some k)
    show ?thesis
    proof (cases "chat k topic")
      case (Inl ex)
      with h Some have "\<forall>m. ex \<noteq> JSONDecodeError m" by auto
      then show ?thesis using Some Inl
        by (cases ex) (simp_all add: get_x_intel_def x_intel_try_def)
    next
      case (Inr reply)
      show ?thesis
      proof (cases reply)
        case None
        then show ?thesis using Some Inr by (simp add: get_x_intel_def x_intel_try_def)
      next
        case (Some text')
        show ?thesis
        proof (cases "loads (cleaned text')")
          case (Inl ex)
          then show ?thesis
            using \<open>get_xai_client e = Some k\<close> \<open>chat k topic = Inr reply\<close> Some
            by (cases ex) (simp_all add: get_x_intel_def x_intel_try_text)
        next
          case (Inr v)
          then show ?thesis
            using \<open>get_xai_client e = Some k\<close> \<open>chat k topic = Inr reply\<close> Some
            by (simp add: get_x_intel_def x_intel_try_text)
        qed
      qed
    qed
  qed
  show ?thesis
    using config transport parse other total cleaned_plain conv by blast
qed

theorem C3_x_intel_errors_witness:
  "get_xai_client Map.empty = None \<and>
   get_x_intel Map.empty padded_chat (json_loads null_decoder) (str ''storm'') =
     Inr (ErrorDict (str ''XAI_API_KEY not configured'') None) \<and>
   get_xai_client xai_env = Some (str ''key'') \<and>
   failing_chat (str ''key'') (str ''storm'') = Inl (OtherException (str ''Connection error.'')) \<and>
   get_x_intel xai_env failing_chat (json_loads null_decoder) (str ''storm'') =
     Inr (ErrorDict (str ''Error calling Grok API: Connection error.'') None) \<and>
   padded_chat (str ''key'') (str ''storm'') = Inr (Some (str '' oops '')) \<and>
   cleaned (str '' oops '') = str ''oops'' \<and>
   get_x_intel xai_env padded_chat (json_loads null_decoder) (str ''storm'') =
     Inr (ErrorDict
       (str ''Failed to parse Grok response: Expecting value: line 1 column 1 (char 0)'')
       (Some (str ''oops''))) \<and>
   get_x_intel xai_env padded_chat
       (\<lambda>s. Inl (OtherException (str ''maximum recursion depth exceeded'')) :: exn + json)
       (str ''storm'') =
     Inr (ErrorDict (str ''Error calling Grok API: maximum recursion depth exceeded'') None) \<and>
   py_strip (str ''oops'') = str ''oops'' \<and> \<not> startswith (str ''oops'') fence \<and>
   cleaned (str ''oops'') = str ''oops'' \<and>
   cleaned (str '' oops '') \<noteq> str '' oops '' \<and> py_strip (str '' oops '') \<noteq> str '' oops ''"
proof -
  let ?deep = "\<lambda>s. Inl (OtherException (str ''maximum recursion depth exceeded'')) :: exn + json"
  have c0: "get_xai_client Map.empty = None"
    by (simp add: get_xai_client_def truthy_def)
  have c1: "get_xai_client xai_env = Some (str ''key'')"
    by (simp add: get_xai_client_def xai_env_def truthy_def str_def)
  have t: "failing_chat (str ''key'') (str ''storm'') = Inl (OtherException (str ''Connection error.''))"
    by (simp add: failing_chat_def)
  have p: "padded_chat (str ''key'') (str ''storm'') = Inr (Some (str '' oops ''))"
    by (simp add: padded_chat_def)
  have cl: "cleaned (str '' oops '') = str ''oops''"
    by (simp add: cleaned_def strip_fence_def fence_def str_def py_strip_def py_isspace_def
        startswith_def)
  have l: "json_loads null_decoder (cleaned (str '' oops '')) =
      Inl (JSONDecodeError (str ''Expecting value: line 1 column 1 (char 0)''))"
    unfolding cl by (simp add: json_loads_def json_ws_def json_value_start_def str_def)
  have dp: "?deep (cleaned (str '' oops '')) =
      Inl (OtherException (str ''maximum recursion depth exceeded''))"
    by simp
  have s: "py_strip (str ''oops'') = str ''oops''"
    by (simp add: str_def py_strip_def py_isspace_def)
  have f: "\<not> startswith (str ''oops'') fence"
    by (simp add: str_def startswith_def fence_def)
  have ps: "py_strip (str '' oops '') \<noteq> str '' oops ''"
    by (simp add: str_def py_strip_def py_isspace_def)
  have n: "\<forall>m. OtherException (str ''Connection error.'') \<noteq> JSONDecodeError m" by simp
  have n': "\<forall>m. OtherException (str ''maximum recursion depth exceeded'') \<noteq> JSONDecodeError m"
    by simp
  note A = C3_x_intel_errors [where e = Map.empty and chat = padded_chat
      and loads = "json_loads null_decoder" and topic = "str ''storm''"]
  note B = C3_x_intel_errors [where e = xai_env and chat = failing_chat
      and loads = "json_loads null_decoder" and topic = "str ''storm''"
      and client = "str ''key''" and ex = "OtherException (str ''Connection error.'')"]
  note C = C3_x_intel_errors [of xai_env padded_chat "json_loads null_decoder" "str ''storm''"
      "str ''key''" _ "str '' oops ''" "str ''Expecting value: line 1 column 1 (char 0)''"]
  note D = C3_x_intel_errors [of xai_env padded_chat ?deep "str ''storm''"
      "str ''key''" _ "str '' oops ''" _ "OtherException (str ''maximum recursion depth exceeded'')"]
  note E = C3_x_intel_errors [of _ _ _ _ _ _ "str ''oops''"]
  have r0: "get_x_intel Map.empty padded_chat (json_loads null_decoder) (str ''storm'') =
     Inr (ErrorDict (str ''XAI_API_KEY not configured'') None)"
    using A c0 by blast
  have r1: "get_x_intel xai_env failing_chat (json_loads null_decoder) (str ''storm'') =
     Inr (ErrorDict (str ''Error calling Grok API: '' @ exn_text (OtherException (str ''Connection error.''))) None)"
    using B c1 t n by blast
  have r2: "get_x_intel xai_env padded_chat (json_loads null_decoder) (str ''storm'') =
     Inr (ErrorDict (str ''Failed to parse Grok response: '' @ str ''Expecting value: line 1 column 1 (char 0)'')
       (Some (cleaned (str '' oops ''))))"
    using C c1 p l by blast
  have r3: "get_x_intel xai_env padded_chat ?deep (str ''storm'') =
     Inr (ErrorDict (str ''Error calling Grok API: '' @
       exn_text (OtherException (str ''maximum recursion depth exceeded''))) None)"
    using D c1 p dp n' by blast
  have r4: "cleaned (str ''oops'') = str ''oops''"
    using E s f by blast
  have r5: "cleaned (str '' oops '') \<noteq> str '' oops ''"
    using C ps by blast
  show ?thesis
    using c0 c1 t p cl s f ps r0 r1 r2 r3 r4 r5 by (simp add: str_def)
qed

section \<open>The Evidence Fetcher\<close>

text \<open>
  C4. With a configured key and a recency-scoped search (past year, at most 10 results)
  that returns: when it has fewer than 3 results, a second search without the time filter
  is issued and the function returns exactly the results of that second search, one item
  for each result and in the same order, each item holding the \<open>url\<close>, the
  \<open>content\<close> and the \<open>title\<close> of its result (the empty list when the second
  search fails); when it has 3 or more results, the scoped search is the only request and
  its results are returned in the same way. The results of a response are the list under
  its key \<open>results\<close>, and the empty list when the key is absent.
\<close>

theorem C4_fallback_search:
  assumes "py_or (e (str ''Tavily API Key'')) (e (str ''TAVILY_API_KEY'')) = Some k"
    and "k \<noteq> []"
    and "search k (recent_request topic) = Inr response"
  shows "(length (results_of response) < 3 \<longrightarrow>
            requests (get_live_news e search topic) =
              [recent_request topic, unscoped_request topic] \<and>
            (\<forall>response2. search k (unscoped_request topic) = Inr response2 \<longrightarrow>
               returned (get_live_news e search topic) =
                 Some (map (\<lambda>r. \<lparr>url = r (str ''url''), content = r (str ''content''),
                                  title = r (str ''title'')\<rparr>)
                         (results_of response2))) \<and>
            (\<forall>ex. search k (unscoped_request topic) = Inl ex \<longrightarrow>
               returned (get_live_news e search topic) = Some [])) \<and>
         (3 \<le> length (results_of response) \<longrightarrow>
            requests (get_live_news e search topic) = [recent_request topic] \<and>
            returned (get_live_news e search topic) =
              Some (map (\<lambda>r. \<lparr>url = r (str ''url''), content = r (str ''content''),
                               title = r (str ''title'')\<rparr>)
                      (results_of response))) \<and>
         results_of None = ([] :: 'a pydict list) \<and>
         (\<forall>rs :: 'a pydict list. results_of (Some rs) = rs) \<and>
         time_range (recent_request topic) = Some (str ''year'') \<and>
         max_results (recent_request topic) = 10 \<and>
         time_range (unscoped_request topic) = None \<and>
         max_results (unscoped_request topic) = 10 \<and>
         query (recent_request topic) = topic \<and> query (unscoped_request topic) = topic"
proof -
  have r: "results_of None = ([] :: 'a pydict list) \<and>
      (\<forall>rs :: 'a pydict list. results_of (Some rs) = rs)"
    by (simp add: results_of_def)
  show ?thesis
    using assms r
    by (auto simp: get_live_news_def Let_def recent_request_def unscoped_request_def
        news_of_def split: sum.splits)
qed

theorem C4_fallback_search_witness:
  "py_or (tavily_env (str ''Tavily API Key'')) (tavily_env (str ''TAVILY_API_KEY'')) = Some (str ''tvly'') \<and>
   sparse_search (str ''tvly'') (recent_request (str ''storm'')) = Inr (Some [hit ''a'', hit ''b'']) \<and>
   sparse_search (str ''tvly'') (unscoped_request (str ''storm'')) =
     Inr (Some [hit ''c'', hit ''d'', hit ''e'', hit ''f'']) \<and>
   requests (get_live_news tavily_env sparse_search (str ''storm'')) =
     [recent_request (str ''storm''), unscoped_request (str ''storm'')] \<and>
   returned (get_live_news tavily_env sparse_search (str ''storm'')) =
     Some [\<lparr>url = Some (str ''https://example.org/c''), content = Some (str ''text of c''),
            title = Some (str ''c'')\<rparr>,
           \<lparr>url = Some (str ''https://example.org/d''), content = Some (str ''text of d''),
            title = Some (str ''d'')\<rparr>,
           \<lparr>url = Some (str ''https://example.org/e''), content = Some (str ''text of e''),
            title = Some (str ''e'')\<rparr>,
           \<lparr>url = Some (str ''https://example.org/f''), content = Some (str ''text of f''),
            title = Some (str ''f'')\<rparr>] \<and>
   rich_search (str ''tvly'') (recent_request (str ''storm'')) =
     Inr (Some [hit ''a'', hit ''b'', hit ''c'']) \<and>
   requests (get_live_news tavily_env rich_search (str ''storm'')) = [recent_request (str ''storm'')] \<and>
   returned (get_live_news tavily_env rich_search (str ''storm'')) =
     Some [\<lparr>url = Some (str ''https://example.org/a''), content = Some (str ''text of a''),
            title = Some (str ''a'')\<rparr>,
           \<lparr>url = Some (str ''https://example.org/b''), content = Some (str ''text of b''),
            title = Some (str ''b'')\<rparr>,
           \<lparr>url = Some (str ''https://example.org/c''), content = Some (str ''text of c''),
            title = Some (str ''c'')\<rparr>]"
proof -
  have k: "py_or (tavily_env (str ''Tavily API Key'')) (tavily_env (str ''TAVILY_API_KEY'')) =
      Some (str ''tvly'')"
    by (simp add: py_or_def truthy_def tavily_env_def str_def)
  have ne: "str ''tvly'' \<noteq> []" by (simp add: str_def)
  have s1: "sparse_search (str ''tvly'') (recent_request (str ''storm'')) =
      Inr (Some [hit ''a'', hit ''b''])"
    by (simp add: sparse_search_def recent_request_def)
  have s2: "sparse_search (str ''tvly'') (unscoped_request (str ''storm'')) =
      Inr (Some [hit ''c'', hit ''d'', hit ''e'', hit ''f''])"
    by (simp add: sparse_search_def unscoped_request_def)
  have r1: "rich_search (str ''tvly'') (recent_request (str ''storm'')) =
      Inr (Some [hit ''a'', hit ''b'', hit ''c''])"
    by (simp add: rich_search_def recent_request_def)
  note A = C4_fallback_search [of tavily_env "str ''tvly''" sparse_search "str ''storm''"
      "Some [hit ''a'', hit ''b'']", OF k ne s1]
  note B = C4_fallback_search [of tavily_env "str ''tvly''" rich_search "str ''storm''"
      "Some [hit ''a'', hit ''b'', hit ''c'']", OF k ne r1]
  have l2: "length (results_of (Some [hit ''a'', hit ''b''])) < 3"
    by (simp add: results_of_def)
  have l3: "3 \<le> length (results_of (Some [hit ''a'', hit ''b'', hit ''c'']))"
    by (simp add: results_of_def)
  have a: "requests (get_live_news tavily_env sparse_search (str ''storm'')) =
       [recent_request (str ''storm''), unscoped_request (str ''storm'')] \<and>
     returned (get_live_news tavily_env sparse_search (str ''storm'')) =
       Some (map (\<lambda>r. \<lparr>url = r (str ''url''), content = r (str ''content''),
                        title = r (str ''title'')\<rparr>)
               (results_of (Some [hit ''c'', hit ''d'', hit ''e'', hit ''f''])))"
    using A l2 s2 by blast
  have b: "requests (get_live_news tavily_env rich_search (str ''storm'')) =
       [recent_request (str ''storm'')] \<and>
     returned (get_live_news tavily_env rich_search (str ''storm'')) =
       Some (map (\<lambda>r. \<lparr>url = r (str ''url''), content = r (str ''content''),
                        title = r (str ''title'')\<rparr>)
               (results_of (Some [hit ''a'', hit ''b'', hit ''c''])))"
    using B l3 by blast
  show ?thesis
    using k s1 s2 r1 a b by (simp add: results_of_def hit_def str_def)
qed

section \<open>The History Store\<close>

lemma write_file_usable:
  "usable s \<Longrightarrow> \<exists>s'. write_file s d = Inr s' \<and> usable s' \<and> path_exists s' \<and> read_file s' = Inr d"
  by (cases s) auto

lemma load_history_after_write:
  assumes "write_file s d = Inr s'" "read_file s' = Inr d" "path_exists s'" "load d = Inr v"
  shows "load_history load s' = Inr v"
  using assms by (simp add: load_history_def)

text \<open>
  One append on a usable store whose history is a list: the write succeeds, and reading
  the store again gives the new entry in front of the old entries, provided \<open>json\<close>
  reads back the document it wrote.
\<close>

lemma save_search_load:
  assumes u: "usable s"
    and h: "load_history load s = Inr (JList old)"
    and rt: "load (dump (JList (new_entry ts topic cs rh x # old))) =
               Inr (JList (new_entry ts topic cs rh x # old))"
  shows "\<exists>s'. save_search dump load ts topic cs rh x s = Inr s' \<and> usable s' \<and>
           load_history load s' = Inr (JList (new_entry ts topic cs rh x # old))"
proof -
  obtain s' where w: "write_file s (dump (JList (new_entry ts topic cs rh x # old))) = Inr s'"
      and u': "usable s'" and p: "path_exists s'"
      and r: "read_file s' = Inr (dump (JList (new_entry ts topic cs rh x # old)))"
    using write_file_usable [OF u] by blast
  have "save_search dump load ts topic cs rh x s = Inr s'"
    using h w by (simp add: save_search_def)
  moreover have "load_history load s' = Inr (JList (new_entry ts topic cs rh x # old))"
    using w r p rt by (rule load_history_after_write)
  ultimately show ?thesis using u' by blast
qed

lemma new_entry_fields:
  "getkey (new_entry ts topic cs rh x) (str ''topic'') = Inr topic \<and>
   getkey (new_entry ts topic cs rh x) (str ''confidence_score'') = Inr cs"
  by (simp add: new_entry_def str_def)

text \<open>
  C7. For every topic, confidence value, report content and social-signal value, on a
  usable store whose history is a list (a missing file, a file that does not parse, or a
  file holding a list), \<open>save_search\<close> returns and \<open>load_history()[0]\<close> right after
  it is the entry just appended, whose \<open>topic\<close> and \<open>confidence_score\<close> are the
  values passed.
\<close>

theorem C7_append_then_first:
  assumes "usable s"
    and "load_history load s = Inr (JList old)"
    and "load (dump (JList (new_entry ts topic cs rh x # old))) =
           Inr (JList (new_entry ts topic cs rh x # old))"
  shows "\<exists>s' en. save_search dump load ts topic cs rh x s = Inr s' \<and>
           load_first load s' = Inr en \<and>
           en = new_entry ts topic cs rh x \<and>
           getkey en (str ''topic'') = Inr topic \<and>
           getkey en (str ''confidence_score'') = Inr cs"
proof -
  obtain s' where "save_search dump load ts topic cs rh x s = Inr s'"
      and "load_history load s' = Inr (JList (new_entry ts topic cs rh x # old))"
    using save_search_load [of s load old dump ts topic cs rh x] assms by blast
  then show ?thesis
    using new_entry_fields [of ts topic cs rh x] by (simp add: load_first_def)
qed

theorem C7_append_then_first_witness:
  "usable (File True True (JList [storm_entry])) \<and>
   load_history load_id (File True True (JList [storm_entry])) = Inr (JList [storm_entry]) \<and>
   (\<exists>s' en.
      save_search dump_id load_id (str ''2026-01-02 09:30:00'') (JStr (str ''flood'')) (JInt 100)
        (JStr (str ''<div/>'')) JNull (File True True (JList [storm_entry])) = Inr s' \<and>
      load_first load_id s' = Inr en \<and>
      getkey en (str ''topic'') = Inr (JStr (str ''flood'')) \<and>
      getkey en (str ''confidence_score'') = Inr (JInt 100))"
proof -
  have u: "usable (File True True (JList [storm_entry]))" by simp
  have h: "load_history load_id (File True True (JList [storm_entry])) = Inr (JList [storm_entry])"
    by (simp add: load_history_def load_id_def)
  have rt: "load_id (dump_id (JList (new_entry (str ''2026-01-02 09:30:00'') (JStr (str ''flood''))
        (JInt 100) (JStr (str ''<div/>'')) JNull # [storm_entry]))) =
      Inr (JList (new_entry (str ''2026-01-02 09:30:00'') (JStr (str ''flood''))
        (JInt 100) (JStr (str ''<div/>'')) JNull # [storm_entry]))"
    by (simp add: load_id_def dump_id_def)
  note A = C7_append_then_first [where s = "File True True (JList [storm_entry])"
      and load = load_id and dump = dump_id and old = "[storm_entry]"
      and ts = "str ''2026-01-02 09:30:00''" and topic = "JStr (str ''flood'')"
      and cs = "JInt 100" and rh = "JStr (str ''<div/>'')" and x = JNull, OF u h rt]
  from A u h show ?thesis by blast
qed



text \<open>
  C9. For every state of the store file \<open>load_history\<close> returns and does not raise;
  it returns the empty list when the file does not exist, when the file cannot be read,
  and when its content does not parse.
\<close>

theorem C9_load_history_total:
  "(\<exists>v. load_history load s = Inr v) \<and>
   (\<not> path_exists s \<longrightarrow> load_history load s = Inr (JList [])) \<and>
   (\<forall>ex. read_file s = Inl ex \<longrightarrow> load_history load s = Inr (JList [])) \<and>
   (\<forall>c ex. read_file s = Inr c \<and> load c = Inl ex \<longrightarrow> load_history load s = Inr (JList []))"
  by (auto simp: load_history_def split: sum.splits)

theorem C9_load_history_total_witness:
  "\<not> path_exists (Missing True :: ustr store) \<and>
   load_history (json_loads null_decoder) (Missing True) = Inr (JList []) \<and>
   read_file (File False True (str ''[]'')) = Inl (OSError (str ''Permission denied'')) \<and>
   load_history (json_loads null_decoder) (File False True (str ''[]'')) = Inr (JList []) \<and>
   read_file (File True True (str ''oops'')) = Inr (str ''oops'') \<and>
   json_loads null_decoder (str ''oops'') =
     Inl (JSONDecodeError (str ''Expecting value: line 1 column 1 (char 0)'')) \<and>
   load_history (json_loads null_decoder) (File True True (str ''oops'')) = Inr (JList [])"
proof -
  have a: "\<not> path_exists (Missing True :: ustr store)" by simp
  have b: "read_file (File False True (str ''[]'')) = Inl (OSError (str ''Permission denied''))"
    by simp
  have c: "read_file (File True True (str ''oops'')) = Inr (str ''oops'')" by simp
  have d: "json_loads null_decoder (str ''oops'') =
      Inl (JSONDecodeError (str ''Expecting value: line 1 column 1 (char 0)''))"
    by (simp add: json_loads_def json_ws_def json_value_start_def str_def)
  note A = C9_load_history_total [of "json_loads null_decoder" "Missing True"]
  note B = C9_load_history_total [of "json_loads null_decoder" "File False True (str ''[]'')"]
  note C = C9_load_history_total [of "json_loads null_decoder" "File True True (str ''oops'')"]
  have ra: "load_history (json_loads null_decoder) (Missing True) = Inr (JList [])"
    using A a by blast
  have rb: "load_history (json_loads null_decoder) (File False True (str ''[]'')) = Inr (JList [])"
    using B b by blast
  have rc: "load_history (json_loads null_decoder) (File True True (str ''oops'')) = Inr (JList [])"
    using C c d by blast
  show ?thesis using a b c d ra rb rc by blast
qed

end
